theory Spec2Isabelle
  imports Main
begin

section \<open>Values, effects and the transport\<close>

text \<open>
  The component \<open>LidoStandalone\<close> (lido-standalone.tsx) talks to three collaborators:
  the console, synchronous \<open>XMLHttpRequest\<close>, and the document head. Each call on one of
  them is recorded as an event, in the order the code makes it. A thrown JavaScript value
  is an \<open>exn\<close>; a computation is a function from the world to a result (\<open>Inl\<close> a thrown
  value, \<open>Inr\<close> a returned one) and the world it leaves, so effects made before a throw
  stay made.
\<close>

datatype exn = Exn string

datatype js_val = Str string | Num int | Err exn

datatype level = LvLog | LvDebug | LvWarn | LvError

record script_el =
  script_type :: string
  script_src :: string
  script_nomodule :: bool

datatype event =
    Console level "js_val list"
  | XhrRequest string string
  | AppendScript script_el
  | DynamicImport string
  | DefineCustomElements

text \<open>
  The transport answers a synchronous request (method, URL): \<open>open\<close>/\<open>send\<close> throw, or
  the request completes with a status and a response text.
\<close>

type_synonym transport = "string \<Rightarrow> string \<Rightarrow> exn + (int \<times> string)"

text \<open>The fields of the class, props first, then the three \<open>@State\<close> members.\<close>

record LidoStandalone =
  baseUrl :: string
  xmlPath :: "string option"
  initialIndex :: int
  canplay :: bool
  height :: string
  xmlData :: "string option"
  scriptsInjected :: bool
  localXmlData :: "string option"
  xmlBaseUrl :: "string option"

text \<open>The field initialisers of the class.\<close>

definition new_LidoStandalone :: LidoStandalone where
  "new_LidoStandalone =
     \<lparr>baseUrl = [], xmlPath = None, initialIndex = 0, canplay = False, height = ''75vh'',
      xmlData = None, scriptsInjected = False, localXmlData = None, xmlBaseUrl = None\<rparr>"

record world =
  self :: LidoStandalone
  trace :: "event list"

type_synonym 'a js = "world \<Rightarrow> (exn + 'a) \<times> world"

definition js_return :: "'a \<Rightarrow> 'a js" where
  "js_return a w = (Inr a, w)"

definition js_bind :: "'a js \<Rightarrow> ('a \<Rightarrow> 'b js) \<Rightarrow> 'b js" where
  "js_bind m f w = (case m w of (Inl e, w') \<Rightarrow> (Inl e, w') | (Inr a, w') \<Rightarrow> f a w')"

text \<open>\<open>try { m } catch (err) { h err }\<close>\<close>

definition try_catch :: "'a js \<Rightarrow> (exn \<Rightarrow> 'a js) \<Rightarrow> 'a js" where
  "try_catch m h w = (case m w of (Inl e, w') \<Rightarrow> h e w' | (Inr a, w') \<Rightarrow> (Inr a, w'))"

definition emit :: "event \<Rightarrow> unit js" where
  "emit e w = (Inr (), w\<lparr>trace := trace w @ [e]\<rparr>)"

definition console :: "level \<Rightarrow> js_val list \<Rightarrow> unit js" where
  "console l args = emit (Console l args)"

definition modify_self :: "(LidoStandalone \<Rightarrow> LidoStandalone) \<Rightarrow> unit js" where
  "modify_self f w = (Inr (), w\<lparr>self := f (self w)\<rparr>)"

text \<open>
  \<open>new XMLHttpRequest(); xhr.open(method, url, false); xhr.send(null)\<close>: the request is
  recorded, then the transport decides whether the calls throw or complete.
\<close>

definition xhr_sync :: "transport \<Rightarrow> string \<Rightarrow> string \<Rightarrow> (int \<times> string) js" where
  "xhr_sync env method url w = (env method url, w\<lparr>trace := trace w @ [XhrRequest method url]\<rparr>)"

text \<open>JavaScript truthiness of an optional string: \<open>undefined\<close> and \<open>''\<close> are falsy.\<close>

definition truthy :: "string option \<Rightarrow> bool" where
  "truthy v = (case v of None \<Rightarrow> False | Some s \<Rightarrow> s \<noteq> [])"

text \<open>An optional string where a string is expected: \<open>undefined\<close> reads as its name.\<close>

definition js_str :: "string option \<Rightarrow> string" where
  "js_str v = (case v of None \<Rightarrow> ''undefined'' | Some s \<Rightarrow> s)"

text \<open>
  \<open>s.replace(/\/+$/, '')\<close>: the leftmost position from which only slashes (at least
  one) run up to the end of the string is where the match starts; it is replaced by the
  empty string. Without such a position the string is returned as it is.
\<close>

fun replace_trailing_slashes :: "string \<Rightarrow> string" where
  "replace_trailing_slashes [] = []"
| "replace_trailing_slashes (c # cs) =
     (if c = CHR ''/'' \<and> list_all (\<lambda>x. x = CHR ''/'') cs then []
      else c # replace_trailing_slashes cs)"

section \<open>ScriptResolution\<close>

definition doesFileExistSync :: "transport \<Rightarrow> string \<Rightarrow> bool js" where
  "doesFileExistSync env url =
     try_catch
       (js_bind (xhr_sync env ''HEAD'' url)
          (\<lambda>(status, responseText). js_return (200 \<le> status \<and> status < 300)))
       (\<lambda>err. js_bind (console LvWarn [Str ''Synchronous HEAD request failed for:'', Str url, Err err])
          (\<lambda>_. js_return False))"

text \<open>
  \<open>import('lido-player/loader')\<close> returns a promise at once; the call is recorded and the
  caller goes on. The promise settles later, outside the call.
\<close>

definition fallbackNpmImport :: "unit js" where
  "fallbackNpmImport = emit (DynamicImport ''lido-player/loader'')"

text \<open>
  How the promise of the dynamic import settles: the module fails to load, or it loads and
  its \<open>defineCustomElements(window)\<close> then throws (\<open>Some\<close>) or returns (\<open>None\<close>).
\<close>

datatype import_outcome = ImportRejected exn | ImportResolved "exn option"

text \<open>The \<open>.then\<close> callback of \<open>fallbackNpmImport\<close>.\<close>

definition fallback_then :: "exn option \<Rightarrow> unit js" where
  "fallback_then define_throws =
     js_bind (js_bind (emit DefineCustomElements)
                (\<lambda>_ w. case define_throws of Some e \<Rightarrow> (Inl e, w) | None \<Rightarrow> (Inr (), w)))
       (\<lambda>_. js_bind (modify_self (\<lambda>c. c\<lparr>scriptsInjected := True\<rparr>))
          (\<lambda>_. console LvDebug [Str ''Lido scripts loaded via npm fallback (defineCustomElements).'']))"

text \<open>The \<open>.catch\<close> callback of \<open>fallbackNpmImport\<close>.\<close>

definition fallback_catch :: "exn \<Rightarrow> unit js" where
  "fallback_catch err =
     console LvError [Str (''Failed to load from npm package '' @ [CHR 0x22] @ ''lido-player'' @ [CHR 0x22] @ '':''), Err err]"

text \<open>
  \<open>p.then(f).catch(g)\<close>: a rejected \<open>p\<close> skips \<open>f\<close> and reaches \<open>g\<close>; a throw inside
  \<open>f\<close> reaches \<open>g\<close> too.
\<close>

definition fallback_settled :: "import_outcome \<Rightarrow> unit js" where
  "fallback_settled out =
     (case out of
        ImportRejected e \<Rightarrow> fallback_catch e
      | ImportResolved d \<Rightarrow> try_catch (fallback_then d) fallback_catch)"

definition scriptCheckUrl :: "string \<Rightarrow> string" where
  "scriptCheckUrl base = replace_trailing_slashes base @ ''/code/lido-player.esm.js''"

definition scriptEsm :: "string \<Rightarrow> script_el" where
  "scriptEsm base = \<lparr>script_type = ''module'', script_src = scriptCheckUrl base, script_nomodule = False\<rparr>"

definition scriptNoModule :: "string \<Rightarrow> script_el" where
  "scriptNoModule base =
     \<lparr>script_type = [], script_src = replace_trailing_slashes base @ ''/code/lido-player.js'',
      script_nomodule = True\<rparr>"

definition injectLidoScripts :: "transport \<Rightarrow> unit js" where
  "injectLidoScripts env w =
     js_bind (console LvLog [Str ''injectLidoScripts() called. baseUrl='', Str (baseUrl (self w))])
       (\<lambda>_ w1.
          if baseUrl (self w1) = [] then
            js_bind (console LvWarn [Str ''lido-standalone: No baseUrl provided. Using npm fallback...''])
              (\<lambda>_. fallbackNpmImport) w1
          else if scriptsInjected (self w1) then js_return () w1
          else
            js_bind (doesFileExistSync env (scriptCheckUrl (baseUrl (self w1))))
              (\<lambda>fileExists w2.
                 if fileExists then
                   js_bind (emit (AppendScript (scriptEsm (baseUrl (self w2)))))
                     (\<lambda>_. js_bind (emit (AppendScript (scriptNoModule (baseUrl (self w2)))))
                        (\<lambda>_. js_bind (modify_self (\<lambda>c. c\<lparr>scriptsInjected := True\<rparr>))
                           (\<lambda>_ w3. console LvDebug [Str ''Lido scripts injected from:'', Str (baseUrl (self w3))] w3))) w2
                 else
                   js_bind (console LvWarn
                       [Str (''Could not find remote scripts at '' @ [CHR 0x22] @ scriptCheckUrl (baseUrl (self w2)) @ [CHR 0x22]
                             @ ''. Falling back to npm package '' @ [CHR 0x22] @ ''lido-player'' @ [CHR 0x22] @ ''...'')])
                     (\<lambda>_. fallbackNpmImport) w2) w1) w"

section \<open>ContentResolution\<close>

text \<open>The \<open>try\<close>/\<open>catch\<close> statement that ends \<open>fetchXmlData\<close>.\<close>

definition fetchXmlData_try :: "transport \<Rightarrow> unit js" where
  "fetchXmlData_try env =
     try_catch
       (js_bind (\<lambda>w. xhr_sync env ''GET'' (js_str (xmlPath (self w))) w)
          (\<lambda>(status, responseText).
             if 200 \<le> status \<and> status < 300
             then modify_self (\<lambda>c. c\<lparr>localXmlData := Some responseText\<rparr>)
             else (\<lambda>w. console LvWarn
                     [Str (''Failed to fetch XML from '' @ js_str (xmlPath (self w)) @ '':''), Num status] w)))
       (\<lambda>err w. console LvWarn
            [Str (''Error fetching XML from '' @ js_str (xmlPath (self w)) @ '':''), Err err] w)"

definition fetchXmlData :: "transport \<Rightarrow> unit js" where
  "fetchXmlData env w =
     (if truthy (xmlData (self w)) then modify_self (\<lambda>c. c\<lparr>localXmlData := xmlData c\<rparr>) w
      else if \<not> truthy (xmlPath (self w)) then
        (if baseUrl (self w) \<noteq> [] then
           js_bind (modify_self (\<lambda>c. c\<lparr>xmlPath := Some (baseUrl c @ ''/index.xml'')\<rparr>))
             (\<lambda>_. js_bind (modify_self (\<lambda>c. c\<lparr>xmlBaseUrl := Some (baseUrl c)\<rparr>))
                (\<lambda>_. fetchXmlData_try env)) w
         else js_return () w)
      else fetchXmlData_try env w)"

section \<open>Lifecycle and rendering\<close>

definition componentWillLoad :: "transport \<Rightarrow> unit js" where
  "componentWillLoad env = js_bind (injectLidoScripts env) (\<lambda>_. fetchXmlData env)"

definition onBaseUrlChange :: "transport \<Rightarrow> unit js" where
  "onBaseUrlChange env = injectLidoScripts env"

definition onXmlPathChange :: "transport \<Rightarrow> unit js" where
  "onXmlPathChange env = fetchXmlData env"

text \<open>The attributes \<open>render\<close> puts on the \<open>lido-home\<close> element.\<close>

record lido_home =
  attr_initial_index :: int
  attr_canplay :: bool
  attr_height :: string
  attr_xml_data :: "string option"
  attr_base_url :: "string option"

definition render :: "LidoStandalone \<Rightarrow> lido_home" where
  "render c =
     \<lparr>attr_initial_index = initialIndex c, attr_canplay = canplay c, attr_height = height c,
      attr_xml_data = localXmlData c, attr_base_url = xmlBaseUrl c\<rparr>"

section \<open>Observations on a trace\<close>

primrec xhr_requests :: "event list \<Rightarrow> (string \<times> string) list" where
  "xhr_requests [] = []"
| "xhr_requests (e # es) =
     (case e of XhrRequest m u \<Rightarrow> (m, u) # xhr_requests es | _ \<Rightarrow> xhr_requests es)"

primrec appended_scripts :: "event list \<Rightarrow> script_el list" where
  "appended_scripts [] = []"
| "appended_scripts (e # es) =
     (case e of AppendScript s \<Rightarrow> s # appended_scripts es | _ \<Rightarrow> appended_scripts es)"

primrec dynamic_imports :: "event list \<Rightarrow> string list" where
  "dynamic_imports [] = []"
| "dynamic_imports (e # es) =
     (case e of DynamicImport m \<Rightarrow> m # dynamic_imports es | _ \<Rightarrow> dynamic_imports es)"


section \<open>Runs of the component\<close>

text \<open>
  What can happen to an instance: the host writes a prop, the runtime calls a lifecycle
  method or a watcher, or the promise of an earlier dynamic import settles. The runtime
  that decides when a watcher is called is not part of the class, so a run is any sequence
  of these steps, each under the transport of its moment.
\<close>

datatype op =
    ComponentWillLoad
  | OnBaseUrlChange
  | OnXmlPathChange
  | FallbackSettled import_outcome
  | SetBaseUrl string
  | SetXmlPath "string option"
  | SetXmlData "string option"

definition step :: "transport \<Rightarrow> op \<Rightarrow> unit js" where
  "step env o' =
     (case o' of
        ComponentWillLoad \<Rightarrow> componentWillLoad env
      | OnBaseUrlChange \<Rightarrow> onBaseUrlChange env
      | OnXmlPathChange \<Rightarrow> onXmlPathChange env
      | FallbackSettled out \<Rightarrow> fallback_settled out
      | SetBaseUrl b \<Rightarrow> modify_self (\<lambda>c. c\<lparr>baseUrl := b\<rparr>)
      | SetXmlPath p \<Rightarrow> modify_self (\<lambda>c. c\<lparr>xmlPath := p\<rparr>)
      | SetXmlData d \<Rightarrow> modify_self (\<lambda>c. c\<lparr>xmlData := d\<rparr>))"

text \<open>The value of \<open>scriptsInjected\<close> before a run and after each of its steps.\<close>

fun run_flags :: "(transport \<times> op) list \<Rightarrow> world \<Rightarrow> bool list" where
  "run_flags [] w = [scriptsInjected (self w)]"
| "run_flags ((env, o') # rest) w = scriptsInjected (self w) # run_flags rest (snd (step env o' w))"

fun rises :: "bool list \<Rightarrow> nat" where
  "rises (a # b # bs) = (if \<not> a \<and> b then 1 else 0) + rises (b # bs)"
| "rises bs = 0"

fun falls :: "bool list \<Rightarrow> nat" where
  "falls (a # b # bs) = (if a \<and> \<not> b then 1 else 0) + falls (b # bs)"
| "falls bs = 0"

section \<open>Transports and outcomes used in the statements\<close>

text \<open>A completed request whose status is in the range the code accepts, 200 to 299.\<close>

definition is_2xx :: "exn + (int \<times> string) \<Rightarrow> bool" where
  "is_2xx r = (case r of Inl e \<Rightarrow> False | Inr (status, responseText) \<Rightarrow> 200 \<le> status \<and> status < 300)"

text \<open>A transport that answers every request with one status and text, and one that throws.\<close>

definition serves :: "int \<Rightarrow> string \<Rightarrow> transport" where
  "serves status responseText method url = Inr (status, responseText)"

definition unreachable :: transport where
  "unreachable method url = Inl (Exn ''NetworkError'')"

text \<open>A fresh instance whose host has set only \<open>base-url\<close>.\<close>

definition fresh :: "string \<Rightarrow> world" where
  "fresh b = \<lparr>self = new_LidoStandalone\<lparr>baseUrl := b\<rparr>, trace = []\<rparr>"

section \<open>What each method does, case by case\<close>

text \<open>
  The methods are unfolded once, into the world each of their branches leaves; the
  statements below are read off these equations.
\<close>

lemmas js_defs = js_bind_def js_return_def try_catch_def emit_def console_def modify_self_def xhr_sync_def

lemma xhr_requests_append: "xhr_requests (a @ b) = xhr_requests a @ xhr_requests b"
  by (induction a) (auto split: event.splits)

lemma appended_scripts_append: "appended_scripts (a @ b) = appended_scripts a @ appended_scripts b"
  by (induction a) (auto split: event.splits)

lemma dynamic_imports_append: "dynamic_imports (a @ b) = dynamic_imports a @ dynamic_imports b"
  by (induction a) (auto split: event.splits)


lemma doesFileExistSync_eq:
  "doesFileExistSync env url w =
     (case env ''HEAD'' url of
        Inl e \<Rightarrow> (Inr False, w\<lparr>trace := trace w @ [XhrRequest ''HEAD'' url,
                     Console LvWarn [Str ''Synchronous HEAD request failed for:'', Str url, Err e]]\<rparr>)
      | Inr r \<Rightarrow> (Inr (is_2xx (Inr r)), w\<lparr>trace := trace w @ [XhrRequest ''HEAD'' url]\<rparr>))"
  by (simp add: doesFileExistSync_def js_defs is_2xx_def split: sum.splits prod.splits)

lemma fetchXmlData_try_eq:
  "fetchXmlData_try env w =
     (Inr (),
      if is_2xx (env ''GET'' (js_str (xmlPath (self w))))
      then w\<lparr>self := (self w)\<lparr>localXmlData :=
                  Some (case env ''GET'' (js_str (xmlPath (self w))) of
                          Inl e \<Rightarrow> [] | Inr (status, responseText) \<Rightarrow> responseText)\<rparr>,
             trace := trace w @ [XhrRequest ''GET'' (js_str (xmlPath (self w)))]\<rparr>
      else w\<lparr>trace := trace w @
             [XhrRequest ''GET'' (js_str (xmlPath (self w))),
              Console LvWarn
                (case env ''GET'' (js_str (xmlPath (self w))) of
                   Inl e \<Rightarrow> [Str (''Error fetching XML from '' @ js_str (xmlPath (self w)) @ '':''), Err e]
                 | Inr (status, responseText) \<Rightarrow>
                     [Str (''Failed to fetch XML from '' @ js_str (xmlPath (self w)) @ '':''), Num status])]\<rparr>)"
  by (auto simp add: fetchXmlData_try_def js_defs is_2xx_def split: sum.splits prod.splits)

lemma inject_empty:
  "baseUrl (self w) = [] \<Longrightarrow>
   injectLidoScripts env w =
     (Inr (), w\<lparr>trace := trace w @
        [Console LvLog [Str ''injectLidoScripts() called. baseUrl='', Str []],
         Console LvWarn [Str ''lido-standalone: No baseUrl provided. Using npm fallback...''],
         DynamicImport ''lido-player/loader'']\<rparr>)"
  by (simp add: injectLidoScripts_def fallbackNpmImport_def js_defs)

lemma inject_already:
  "baseUrl (self w) \<noteq> [] \<Longrightarrow> scriptsInjected (self w) \<Longrightarrow>
   injectLidoScripts env w =
     (Inr (), w\<lparr>trace := trace w @
        [Console LvLog [Str ''injectLidoScripts() called. baseUrl='', Str (baseUrl (self w))]]\<rparr>)"
  by (simp add: injectLidoScripts_def js_defs)

lemma inject_remote:
  "baseUrl (self w) \<noteq> [] \<Longrightarrow> \<not> scriptsInjected (self w) \<Longrightarrow>
   is_2xx (env ''HEAD'' (scriptCheckUrl (baseUrl (self w)))) \<Longrightarrow>
   injectLidoScripts env w =
     (Inr (), w\<lparr>self := (self w)\<lparr>scriptsInjected := True\<rparr>,
        trace := trace w @
        [Console LvLog [Str ''injectLidoScripts() called. baseUrl='', Str (baseUrl (self w))],
         XhrRequest ''HEAD'' (scriptCheckUrl (baseUrl (self w))),
         AppendScript (scriptEsm (baseUrl (self w))),
         AppendScript (scriptNoModule (baseUrl (self w))),
         Console LvDebug [Str ''Lido scripts injected from:'', Str (baseUrl (self w))]]\<rparr>)"
  by (simp add: injectLidoScripts_def doesFileExistSync_eq js_defs is_2xx_def split: sum.splits prod.splits)

lemma inject_fallback:
  "baseUrl (self w) \<noteq> [] \<Longrightarrow> \<not> scriptsInjected (self w) \<Longrightarrow>
   \<not> is_2xx (env ''HEAD'' (scriptCheckUrl (baseUrl (self w)))) \<Longrightarrow>
   injectLidoScripts env w =
     (Inr (), w\<lparr>trace := trace w @
        [Console LvLog [Str ''injectLidoScripts() called. baseUrl='', Str (baseUrl (self w))],
         XhrRequest ''HEAD'' (scriptCheckUrl (baseUrl (self w)))] @
        (case env ''HEAD'' (scriptCheckUrl (baseUrl (self w))) of
           Inl e \<Rightarrow> [Console LvWarn [Str ''Synchronous HEAD request failed for:'',
                       Str (scriptCheckUrl (baseUrl (self w))), Err e]]
         | Inr r \<Rightarrow> []) @
        [Console LvWarn
           [Str (''Could not find remote scripts at '' @ [CHR 0x22] @ scriptCheckUrl (baseUrl (self w)) @ [CHR 0x22]
                 @ ''. Falling back to npm package '' @ [CHR 0x22] @ ''lido-player'' @ [CHR 0x22] @ ''...'')],
         DynamicImport ''lido-player/loader'']\<rparr>)"
  by (auto simp add: injectLidoScripts_def doesFileExistSync_eq fallbackNpmImport_def js_defs is_2xx_def split: sum.splits prod.splits)

lemma fallback_settled_eq:
  "fallback_settled out w =
     (case out of
        ImportRejected e \<Rightarrow> (Inr (), w\<lparr>trace := trace w @
           [Console LvError [Str (''Failed to load from npm package '' @ [CHR 0x22] @ ''lido-player'' @ [CHR 0x22] @ '':''), Err e]]\<rparr>)
      | ImportResolved (Some e) \<Rightarrow> (Inr (), w\<lparr>trace := trace w @
           [DefineCustomElements,
            Console LvError [Str (''Failed to load from npm package '' @ [CHR 0x22] @ ''lido-player'' @ [CHR 0x22] @ '':''), Err e]]\<rparr>)
      | ImportResolved None \<Rightarrow> (Inr (), w\<lparr>self := (self w)\<lparr>scriptsInjected := True\<rparr>,
           trace := trace w @
           [DefineCustomElements,
            Console LvDebug [Str ''Lido scripts loaded via npm fallback (defineCustomElements).'']]\<rparr>))"
  by (simp add: fallback_settled_def fallback_then_def fallback_catch_def js_defs
           split: import_outcome.splits option.splits)

lemma fetchXmlData_eq:
  "fetchXmlData env w =
     (if truthy (xmlData (self w)) then (Inr (), w\<lparr>self := (self w)\<lparr>localXmlData := xmlData (self w)\<rparr>\<rparr>)
      else if \<not> truthy (xmlPath (self w)) then
        (if baseUrl (self w) \<noteq> [] then
           fetchXmlData_try env
             (w\<lparr>self := (self w)\<lparr>xmlPath := Some (baseUrl (self w) @ ''/index.xml''),
                                  xmlBaseUrl := Some (baseUrl (self w))\<rparr>\<rparr>)
         else (Inr (), w))
      else fetchXmlData_try env w)"
  by (simp add: fetchXmlData_def js_defs)

lemma fetchXmlData_try_frame:
  "fst (fetchXmlData_try env w) = Inr () \<and>
   xhr_requests (trace (snd (fetchXmlData_try env w))) =
     xhr_requests (trace w) @ [(''GET'', js_str (xmlPath (self w)))] \<and>
   xmlBaseUrl (self (snd (fetchXmlData_try env w))) = xmlBaseUrl (self w) \<and>
   xmlPath (self (snd (fetchXmlData_try env w))) = xmlPath (self w) \<and>
   xmlData (self (snd (fetchXmlData_try env w))) = xmlData (self w) \<and>
   baseUrl (self (snd (fetchXmlData_try env w))) = baseUrl (self w) \<and>
   scriptsInjected (self (snd (fetchXmlData_try env w))) = scriptsInjected (self w) \<and>
   appended_scripts (trace (snd (fetchXmlData_try env w))) = appended_scripts (trace w) \<and>
   dynamic_imports (trace (snd (fetchXmlData_try env w))) = dynamic_imports (trace w)"
  by (simp add: fetchXmlData_try_eq xhr_requests_append appended_scripts_append dynamic_imports_append)

lemma inject_frame:
  "fst (injectLidoScripts env w) = Inr () \<and>
   baseUrl (self (snd (injectLidoScripts env w))) = baseUrl (self w) \<and>
   xmlPath (self (snd (injectLidoScripts env w))) = xmlPath (self w) \<and>
   xmlData (self (snd (injectLidoScripts env w))) = xmlData (self w) \<and>
   localXmlData (self (snd (injectLidoScripts env w))) = localXmlData (self w) \<and>
   xmlBaseUrl (self (snd (injectLidoScripts env w))) = xmlBaseUrl (self w)"
proof -
  consider (empty) "baseUrl (self w) = []"
    | (already) "baseUrl (self w) \<noteq> []" "scriptsInjected (self w)"
    | (remote) "baseUrl (self w) \<noteq> []" "\<not> scriptsInjected (self w)"
        "is_2xx (env ''HEAD'' (scriptCheckUrl (baseUrl (self w))))"
    | (fallback) "baseUrl (self w) \<noteq> []" "\<not> scriptsInjected (self w)"
        "\<not> is_2xx (env ''HEAD'' (scriptCheckUrl (baseUrl (self w))))"
    by blast
  then show ?thesis
  proof cases
    case empty then show ?thesis by (simp add: inject_empty)
  next
    case already then show ?thesis by (simp add: inject_already)
  next
    case remote then show ?thesis by (simp add: inject_remote)
  next
    case fallback then show ?thesis by (simp add: inject_fallback)
  qed
qed



lemma fallback_settled_frame:
  "fst (fallback_settled out w) = Inr () \<and>
   baseUrl (self (snd (fallback_settled out w))) = baseUrl (self w) \<and>
   xmlPath (self (snd (fallback_settled out w))) = xmlPath (self w) \<and>
   xmlData (self (snd (fallback_settled out w))) = xmlData (self w) \<and>
   localXmlData (self (snd (fallback_settled out w))) = localXmlData (self w) \<and>
   xmlBaseUrl (self (snd (fallback_settled out w))) = xmlBaseUrl (self w) \<and>
   appended_scripts (trace (snd (fallback_settled out w))) = appended_scripts (trace w) \<and>
   xhr_requests (trace (snd (fallback_settled out w))) = xhr_requests (trace w)"
  by (simp add: fallback_settled_eq appended_scripts_append xhr_requests_append
           split: import_outcome.splits option.splits)

lemma componentWillLoad_eq:
  "componentWillLoad env w = fetchXmlData env (snd (injectLidoScripts env w))"
  using inject_frame [of env w]
  by (cases "injectLidoScripts env w") (simp add: componentWillLoad_def js_bind_def)

lemma inject_flag:
  "scriptsInjected (self (snd (injectLidoScripts env w))) =
     (scriptsInjected (self w) \<or>
      baseUrl (self w) \<noteq> [] \<and> is_2xx (env ''HEAD'' (scriptCheckUrl (baseUrl (self w)))))"
proof -
  consider (empty) "baseUrl (self w) = []"
    | (already) "baseUrl (self w) \<noteq> []" "scriptsInjected (self w)"
    | (remote) "baseUrl (self w) \<noteq> []" "\<not> scriptsInjected (self w)"
        "is_2xx (env ''HEAD'' (scriptCheckUrl (baseUrl (self w))))"
    | (fallback) "baseUrl (self w) \<noteq> []" "\<not> scriptsInjected (self w)"
        "\<not> is_2xx (env ''HEAD'' (scriptCheckUrl (baseUrl (self w))))"
    by blast
  then show ?thesis
  proof cases
    case empty then show ?thesis by (simp add: inject_empty)
  next
    case already then show ?thesis by (simp add: inject_already)
  next
    case remote then show ?thesis by (simp add: inject_remote)
  next
    case fallback then show ?thesis by (simp add: inject_fallback)
  qed
qed

lemma fetch_flag:
  "scriptsInjected (self (snd (fetchXmlData env w))) = scriptsInjected (self w)"
  by (simp add: fetchXmlData_eq fetchXmlData_try_frame)

lemma fallback_settled_flag:
  "scriptsInjected (self (snd (fallback_settled out w))) =
     (scriptsInjected (self w) \<or> out = ImportResolved None)"
  by (simp add: fallback_settled_eq split: import_outcome.splits option.splits)

lemma step_flag:
  "scriptsInjected (self (snd (step env o' w))) =
     (scriptsInjected (self w) \<or> o' = FallbackSettled (ImportResolved None) \<or>
      (o' = ComponentWillLoad \<or> o' = OnBaseUrlChange) \<and> baseUrl (self w) \<noteq> [] \<and>
      is_2xx (env ''HEAD'' (scriptCheckUrl (baseUrl (self w)))))"
  by (cases o')
    (auto simp add: step_def onBaseUrlChange_def onXmlPathChange_def componentWillLoad_eq
       inject_flag fetch_flag fallback_settled_flag modify_self_def)

lemma rises_run_flags_Cons:
  "rises (run_flags ((env, o') # rest) w) =
     (if \<not> scriptsInjected (self w) \<and> scriptsInjected (self (snd (step env o' w))) then 1 else 0)
     + rises (run_flags rest (snd (step env o' w)))"
  by (cases rest) auto

lemma falls_run_flags_Cons:
  "falls (run_flags ((env, o') # rest) w) =
     (if scriptsInjected (self w) \<and> \<not> scriptsInjected (self (snd (step env o' w))) then 1 else 0)
     + falls (run_flags rest (snd (step env o' w)))"
  by (cases rest) auto

lemma falls_run_flags: "falls (run_flags steps w) = 0"
proof (induction steps arbitrary: w)
  case Nil
  show ?case by simp
next
  case (Cons s steps)
  obtain env o' where s: "s = (env, o')" by (cases s)
  show ?case unfolding s falls_run_flags_Cons using Cons.IH by (simp add: step_flag)
qed

lemma rises_run_flags: "rises (run_flags steps w) \<le> (if scriptsInjected (self w) then 0 else 1)"
proof (induction steps arbitrary: w)
  case Nil
  show ?case by simp
next
  case (Cons s steps)
  obtain env o' where s: "s = (env, o')" by (cases s)
  show ?case
  proof (cases "scriptsInjected (self (snd (step env o' w)))")
    case True
    with Cons.IH [of "snd (step env o' w)"] have "rises (run_flags steps (snd (step env o' w))) = 0"
      by simp
    then show ?thesis unfolding s rises_run_flags_Cons by simp
  next
    case False
    then have "\<not> scriptsInjected (self w)" by (simp add: step_flag)
    with False Cons.IH [of "snd (step env o' w)"] show ?thesis
      unfolding s rises_run_flags_Cons by simp
  qed
qed






section \<open>ContentResolution: inline data and the default location\<close>

text \<open>
  C1 (as stated): whenever inline XML data is supplied, \<open>fetchXmlData\<close> fetches nothing,
  \<open>localXmlData\<close> is the inline data and no base is set. The test the code makes is
  \<open>if (this.xmlData)\<close>, which the empty string fails: with \<open>xml-data=""\<close> and a base
  URL the method derives the default location, sends a GET, stores the response text and
  sets \<open>xmlBaseUrl\<close>.
\<close>

theorem fetchXmlData_inline_empty_counterexample:
  "xmlData (self \<lparr>self = new_LidoStandalone\<lparr>baseUrl := ''https://x/y'', xmlData := Some []\<rparr>, trace = []\<rparr>) = Some [] \<and>
   snd (fetchXmlData (serves 200 ''<xml/>'')
          \<lparr>self = new_LidoStandalone\<lparr>baseUrl := ''https://x/y'', xmlData := Some []\<rparr>, trace = []\<rparr>) =
     \<lparr>self = new_LidoStandalone\<lparr>baseUrl := ''https://x/y'', xmlPath := Some ''https://x/y/index.xml'',
                                  xmlData := Some [], localXmlData := Some ''<xml/>'',
                                  xmlBaseUrl := Some ''https://x/y''\<rparr>,
      trace = [XhrRequest ''GET'' ''https://x/y/index.xml'']\<rparr>"
  by (simp add: fetchXmlData_eq fetchXmlData_try_eq truthy_def serves_def new_LidoStandalone_def js_str_def is_2xx_def)

text \<open>
  C1 (amended): whenever the inline XML data is a non-empty string, \<open>fetchXmlData\<close>
  returns normally having done nothing but store it: the trace is unchanged (so no
  request is sent, whatever \<open>xmlPath\<close>, \<open>baseUrl\<close> and the transport are),
  \<open>localXmlData\<close> equals the inline data, and \<open>xmlBaseUrl\<close> is not assigned.
\<close>

theorem fetchXmlData_inline_wins:
  assumes "truthy (xmlData (self w))"
  shows "fetchXmlData env w = (Inr (), w\<lparr>self := (self w)\<lparr>localXmlData := xmlData (self w)\<rparr>\<rparr>) \<and>
         trace (snd (fetchXmlData env w)) = trace w \<and>
         xhr_requests (trace (snd (fetchXmlData env w))) = xhr_requests (trace w) \<and>
         localXmlData (self (snd (fetchXmlData env w))) = xmlData (self w) \<and>
         xmlBaseUrl (self (snd (fetchXmlData env w))) = xmlBaseUrl (self w)"
  using assms by (simp add: fetchXmlData_eq)

theorem fetchXmlData_inline_wins_witness:
  "truthy (Some ''<a/>'') \<and>
   fetchXmlData unreachable
     \<lparr>self = new_LidoStandalone\<lparr>baseUrl := ''https://x/y'', xmlPath := Some ''https://x/y/a.xml'',
                                  xmlData := Some ''<a/>''\<rparr>, trace = []\<rparr> =
     (Inr (), \<lparr>self = new_LidoStandalone\<lparr>baseUrl := ''https://x/y'', xmlPath := Some ''https://x/y/a.xml'',
                                  xmlData := Some ''<a/>'', localXmlData := Some ''<a/>''\<rparr>, trace = []\<rparr>)"
  using fetchXmlData_inline_wins [of "\<lparr>self = new_LidoStandalone\<lparr>baseUrl := ''https://x/y'',
            xmlPath := Some ''https://x/y/a.xml'', xmlData := Some ''<a/>''\<rparr>, trace = []\<rparr>" unreachable]
  by (simp add: truthy_def new_LidoStandalone_def)





text \<open>
  C10: \<open>xmlBaseUrl\<close> is assigned only on the derived-default path. No step of the
  component changes it unless the step runs \<open>fetchXmlData\<close> with no inline data in
  effect, no \<open>xmlPath\<close> in effect and a non-empty \<open>baseUrl\<close>. When an explicit
  \<open>xmlPath\<close> is given, or inline data is used, an \<open>xmlBaseUrl\<close> that is undefined
  stays undefined through \<open>fetchXmlData\<close> and through the whole of
  \<open>componentWillLoad\<close>, and \<open>render\<close> passes an unset \<open>base-url\<close>. (Given and
  used are the code's own tests: a non-empty string.)
\<close>
theorem xmlBaseUrl_only_on_default_path:
  "(xmlBaseUrl (self (snd (step env o' w))) \<noteq> xmlBaseUrl (self w) \<longrightarrow>
      (o' = ComponentWillLoad \<or> o' = OnXmlPathChange) \<and>
      \<not> truthy (xmlData (self w)) \<and> \<not> truthy (xmlPath (self w)) \<and> baseUrl (self w) \<noteq> []) \<and>
   ((truthy (xmlPath (self w)) \<or> truthy (xmlData (self w))) \<and> xmlBaseUrl (self w) = None \<longrightarrow>
      xmlBaseUrl (self (snd (fetchXmlData env w))) = None \<and>
      attr_base_url (render (self (snd (fetchXmlData env w)))) = None \<and>
      xmlBaseUrl (self (snd (componentWillLoad env w))) = None \<and>
      attr_base_url (render (self (snd (componentWillLoad env w)))) = None)"
proof -
  have fetch: "xmlBaseUrl (self (snd (fetchXmlData env v))) =
      (if \<not> truthy (xmlData (self v)) \<and> \<not> truthy (xmlPath (self v)) \<and> baseUrl (self v) \<noteq> []
       then Some (baseUrl (self v)) else xmlBaseUrl (self v))" for v
    by (simp add: fetchXmlData_eq fetchXmlData_try_frame)
  have load: "xmlBaseUrl (self (snd (componentWillLoad env w))) =
      (if \<not> truthy (xmlData (self w)) \<and> \<not> truthy (xmlPath (self w)) \<and> baseUrl (self w) \<noteq> []
       then Some (baseUrl (self w)) else xmlBaseUrl (self w))"
    by (simp add: componentWillLoad_eq fetch inject_frame)
  have step: "xmlBaseUrl (self (snd (step env o' w))) \<noteq> xmlBaseUrl (self w) \<longrightarrow>
      (o' = ComponentWillLoad \<or> o' = OnXmlPathChange) \<and>
      \<not> truthy (xmlData (self w)) \<and> \<not> truthy (xmlPath (self w)) \<and> baseUrl (self w) \<noteq> []"
    by (cases o')
      (simp_all add: step_def onBaseUrlChange_def onXmlPathChange_def fetch load inject_frame
         fallback_settled_frame modify_self_def)
  show ?thesis using step by (simp add: fetch load render_def)
qed

theorem xmlBaseUrl_only_on_default_path_witness:
  "(truthy (Some ''https://x/y/a.xml'') \<or> truthy None) \<and>
   xmlBaseUrl (self (snd (componentWillLoad (serves 200 ''<xml/>'')
      \<lparr>self = new_LidoStandalone\<lparr>baseUrl := ''https://x/y'', xmlPath := Some ''https://x/y/a.xml''\<rparr>, trace = []\<rparr>))) = None \<and>
   attr_base_url (render (self (snd (componentWillLoad (serves 200 ''<xml/>'')
      \<lparr>self = new_LidoStandalone\<lparr>baseUrl := ''https://x/y'', xmlPath := Some ''https://x/y/a.xml''\<rparr>, trace = []\<rparr>)))) = None \<and>
   xmlBaseUrl (self (snd (step (serves 200 ''<xml/>'') ComponentWillLoad (fresh ''https://x/y'')))) \<noteq>
     xmlBaseUrl (self (fresh ''https://x/y'')) \<and> baseUrl (self (fresh ''https://x/y'')) \<noteq> []"
  using xmlBaseUrl_only_on_default_path
    [of "serves 200 ''<xml/>''" ComponentWillLoad
        "\<lparr>self = new_LidoStandalone\<lparr>baseUrl := ''https://x/y'', xmlPath := Some ''https://x/y/a.xml''\<rparr>, trace = []\<rparr>"]
    xmlBaseUrl_only_on_default_path [of "serves 200 ''<xml/>''" ComponentWillLoad "fresh ''https://x/y''"]
  by (simp add: truthy_def new_LidoStandalone_def fresh_def step_def componentWillLoad_eq
        fetchXmlData_eq fetchXmlData_try_frame inject_frame)

section \<open>ScriptResolution: remote scripts and the fallback\<close>

text \<open>
  C2 (as stated): for every non-empty base on which the probe of \<open><base>/code/player.esm.js\<close>
  answers 2xx, \<open>injectLidoScripts\<close> injects two scripts. The method returns at
  \<open>if (this.scriptsInjected) return;\<close> before it probes: on an instance whose scripts
  are already injected, a non-empty base whose files all answer 200 gets no request and
  no script. And on a fresh instance the file probed and injected is
  \<open>code/lido-player.esm.js\<close>, with \<open>code/lido-player.js\<close> beside it.
\<close>

theorem injectLidoScripts_remote_counterexample:
  "baseUrl (self \<lparr>self = new_LidoStandalone\<lparr>baseUrl := ''https://h/p'', scriptsInjected := True\<rparr>, trace = []\<rparr>) \<noteq> [] \<and>
   is_2xx (serves 200 [] ''HEAD'' ''https://h/p/code/player.esm.js'') \<and>
   is_2xx (serves 200 [] ''HEAD'' ''https://h/p/code/lido-player.esm.js'') \<and>
   appended_scripts (trace (snd (injectLidoScripts (serves 200 [])
      \<lparr>self = new_LidoStandalone\<lparr>baseUrl := ''https://h/p'', scriptsInjected := True\<rparr>, trace = []\<rparr>))) = [] \<and>
   xhr_requests (trace (snd (injectLidoScripts (serves 200 [])
      \<lparr>self = new_LidoStandalone\<lparr>baseUrl := ''https://h/p'', scriptsInjected := True\<rparr>, trace = []\<rparr>))) = [] \<and>
   xhr_requests (trace (snd (injectLidoScripts (serves 200 []) (fresh ''https://h/p'')))) =
     [(''HEAD'', ''https://h/p/code/lido-player.esm.js'')] \<and>
   map script_src (appended_scripts (trace (snd (injectLidoScripts (serves 200 []) (fresh ''https://h/p''))))) =
     [''https://h/p/code/lido-player.esm.js'', ''https://h/p/code/lido-player.js'']"
  by (simp add: inject_already inject_remote new_LidoStandalone_def fresh_def serves_def is_2xx_def
        scriptCheckUrl_def scriptEsm_def scriptNoModule_def)

text \<open>
  C2 (amended): for every non-empty \<open>baseUrl\<close>, on an instance whose scripts are not yet
  injected, if the probe of \<open><base>/code/lido-player.esm.js\<close> (trailing slashes stripped
  from the base) answers 2xx, then \<open>injectLidoScripts\<close> returns normally, has sent that
  one HEAD request, has appended exactly two scripts (one of type \<open>module\<close> with the probed
  URL, then one marked \<open>nomodule\<close> with \<open><base>/code/lido-player.js\<close>), has set
  \<open>scriptsInjected\<close>, and has started no dynamic import.
\<close>

theorem injectLidoScripts_remote:
  assumes "baseUrl (self w) \<noteq> []" and "\<not> scriptsInjected (self w)"
    and "is_2xx (env ''HEAD'' (replace_trailing_slashes (baseUrl (self w)) @ ''/code/lido-player.esm.js''))"
  shows "fst (injectLidoScripts env w) = Inr () \<and>
         xhr_requests (trace (snd (injectLidoScripts env w))) =
           xhr_requests (trace w) @
             [(''HEAD'', replace_trailing_slashes (baseUrl (self w)) @ ''/code/lido-player.esm.js'')] \<and>
         appended_scripts (trace (snd (injectLidoScripts env w))) =
           appended_scripts (trace w) @
             [\<lparr>script_type = ''module'',
               script_src = replace_trailing_slashes (baseUrl (self w)) @ ''/code/lido-player.esm.js'',
               script_nomodule = False\<rparr>,
              \<lparr>script_type = [],
               script_src = replace_trailing_slashes (baseUrl (self w)) @ ''/code/lido-player.js'',
               script_nomodule = True\<rparr>] \<and>
         scriptsInjected (self (snd (injectLidoScripts env w))) \<and>
         dynamic_imports (trace (snd (injectLidoScripts env w))) = dynamic_imports (trace w)"
  using assms
  by (simp add: inject_remote scriptCheckUrl_def scriptEsm_def scriptNoModule_def
        xhr_requests_append appended_scripts_append dynamic_imports_append)

theorem injectLidoScripts_remote_witness:
  "baseUrl (self (fresh ''https://h/p/'')) \<noteq> [] \<and> \<not> scriptsInjected (self (fresh ''https://h/p/'')) \<and>
   is_2xx (serves 200 [] ''HEAD'' (replace_trailing_slashes ''https://h/p/'' @ ''/code/lido-player.esm.js'')) \<and>
   appended_scripts (trace (snd (injectLidoScripts (serves 200 []) (fresh ''https://h/p/'')))) =
     [\<lparr>script_type = ''module'', script_src = ''https://h/p/code/lido-player.esm.js'', script_nomodule = False\<rparr>,
      \<lparr>script_type = [], script_src = ''https://h/p/code/lido-player.js'', script_nomodule = True\<rparr>] \<and>
   scriptsInjected (self (snd (injectLidoScripts (serves 200 []) (fresh ''https://h/p/'')))) \<and>
   dynamic_imports (trace (snd (injectLidoScripts (serves 200 []) (fresh ''https://h/p/'')))) = []"
  using injectLidoScripts_remote [of "fresh ''https://h/p/''" "serves 200 []"]
  by (simp add: fresh_def new_LidoStandalone_def serves_def is_2xx_def)






text \<open>
  C4: \<open>scriptsInjected\<close> is monotonic. It starts false. No step of the component (a
  lifecycle call, a watcher, the settling of the dynamic import, a prop written by the
  host) takes it from true to false. A step takes it from false to true only when the step
  is \<open>injectLidoScripts\<close> with a non-empty \<open>baseUrl\<close> whose probe answered 2xx, or the
  settling of the import with the module loaded and \<open>defineCustomElements\<close> returned.
  A failed probe and a failed import leave it false. Hence along any run, of any length
  and under any transports, the flag never falls and rises at most once.
\<close>
theorem scriptsInjected_monotonic:
  "\<not> scriptsInjected new_LidoStandalone \<and>
   (scriptsInjected (self w) \<longrightarrow> scriptsInjected (self (snd (step env o' w)))) \<and>
   (\<not> scriptsInjected (self w) \<and> scriptsInjected (self (snd (step env o' w))) \<longrightarrow>
      o' = FallbackSettled (ImportResolved None) \<or>
      (o' = ComponentWillLoad \<or> o' = OnBaseUrlChange) \<and> baseUrl (self w) \<noteq> [] \<and>
      is_2xx (env ''HEAD'' (scriptCheckUrl (baseUrl (self w))))) \<and>
   (\<not> scriptsInjected (self w) \<and> \<not> is_2xx (env ''HEAD'' (scriptCheckUrl (baseUrl (self w)))) \<longrightarrow>
      \<not> scriptsInjected (self (snd (injectLidoScripts env w)))) \<and>
   (\<not> scriptsInjected (self w) \<and> out \<noteq> ImportResolved None \<longrightarrow>
      \<not> scriptsInjected (self (snd (fallback_settled out w)))) \<and>
   falls (run_flags steps w) = 0 \<and>
   rises (run_flags steps w) \<le> 1"
proof -
  have "rises (run_flags steps w) \<le> 1"
    using rises_run_flags [of steps w] by (simp split: if_splits)
  then show ?thesis
    by (auto simp add: step_flag inject_flag fallback_settled_flag falls_run_flags new_LidoStandalone_def)
qed

theorem scriptsInjected_monotonic_witness:
  "\<not> scriptsInjected (self (fresh ''https://h/p'')) \<and>
   scriptsInjected (self (snd (step (serves 200 []) OnBaseUrlChange (fresh ''https://h/p'')))) \<and>
   scriptsInjected (self (snd (step unreachable OnBaseUrlChange
      (snd (step (serves 200 []) OnBaseUrlChange (fresh ''https://h/p'')))))) \<and>
   \<not> is_2xx (unreachable ''HEAD'' (scriptCheckUrl (baseUrl (self (fresh ''https://h/p''))))) \<and>
   \<not> scriptsInjected (self (snd (injectLidoScripts unreachable (fresh ''https://h/p'')))) \<and>
   \<not> scriptsInjected (self (snd (fallback_settled (ImportRejected (Exn ''load'')) (fresh ''https://h/p'')))) \<and>
   run_flags [(unreachable, ComponentWillLoad), (unreachable, FallbackSettled (ImportResolved None)),
              (serves 200 [], OnBaseUrlChange)] (fresh ''https://h/p'') = [False, False, True, True] \<and>
   falls (run_flags [(unreachable, ComponentWillLoad), (unreachable, FallbackSettled (ImportResolved None)),
              (serves 200 [], OnBaseUrlChange)] (fresh ''https://h/p'')) = 0 \<and>
   rises (run_flags [(unreachable, ComponentWillLoad), (unreachable, FallbackSettled (ImportResolved None)),
              (serves 200 [], OnBaseUrlChange)] (fresh ''https://h/p'')) \<le> 1"
proof -
  have fresh_false: "\<not> scriptsInjected (self (fresh ''https://h/p''))"
    by (simp add: fresh_def new_LidoStandalone_def)
  have injected: "scriptsInjected (self (snd (step (serves 200 []) OnBaseUrlChange (fresh ''https://h/p''))))"
    by (simp add: step_flag fresh_def new_LidoStandalone_def serves_def is_2xx_def)
  have probe_fails: "\<not> is_2xx (unreachable ''HEAD'' (scriptCheckUrl (baseUrl (self (fresh ''https://h/p'')))))"
    by (simp add: unreachable_def is_2xx_def)
  have flags: "run_flags [(unreachable, ComponentWillLoad), (unreachable, FallbackSettled (ImportResolved None)),
              (serves 200 [], OnBaseUrlChange)] (fresh ''https://h/p'') = [False, False, True, True]"
    by code_simp
  note later = scriptsInjected_monotonic [of "snd (step (serves 200 []) OnBaseUrlChange (fresh ''https://h/p''))"
      unreachable OnBaseUrlChange]
  note first = scriptsInjected_monotonic [of "fresh ''https://h/p''" unreachable OnBaseUrlChange
      "ImportRejected (Exn ''load'')"
      "[(unreachable, ComponentWillLoad), (unreachable, FallbackSettled (ImportResolved None)),
        (serves 200 [], OnBaseUrlChange)]"]
  from later injected have "scriptsInjected (self (snd (step unreachable OnBaseUrlChange
      (snd (step (serves 200 []) OnBaseUrlChange (fresh ''https://h/p''))))))"
    by blast
  moreover from first fresh_false probe_fails
  have "\<not> scriptsInjected (self (snd (injectLidoScripts unreachable (fresh ''https://h/p''))))"
    and "\<not> scriptsInjected (self (snd (fallback_settled (ImportRejected (Exn ''load'')) (fresh ''https://h/p''))))"
    and "falls (run_flags [(unreachable, ComponentWillLoad), (unreachable, FallbackSettled (ImportResolved None)),
              (serves 200 [], OnBaseUrlChange)] (fresh ''https://h/p'')) = 0"
    and "rises (run_flags [(unreachable, ComponentWillLoad), (unreachable, FallbackSettled (ImportResolved None)),
              (serves 200 [], OnBaseUrlChange)] (fresh ''https://h/p'')) \<le> 1"
    by blast+
  ultimately show ?thesis using fresh_false injected probe_fails flags by blast
qed

section \<open>ContentResolution: re-runs\<close>




section \<open>Error handling\<close>



end
